theory Spec2Isabelle
  imports Complex_Main
begin

section \<open>The stochastic gradient solver of pymanopt\<close>

text \<open>
  The development follows \<^verbatim>\<open>pymanopt/solvers/stochastic_gradient.py\<close>, method
  \<^verbatim>\<open>StochasticGradient.solve\<close>, statement by statement.  The file is an unfinished
  draft: the dictionary display on line 55 reads the name \<^verbatim>\<open>linesearch\<close>, which
  nothing binds, and the assignment on line 77 has no right-hand side.  Python
  compiles a module before it runs it, so the second defect already makes the import
  fail.  To be able to speak about the statements around these two places, the model
  executes the statements in order and raises the failure where control reaches the
  defective statement: a \<^verbatim>\<open>NameError\<close> on line 55, a \<^verbatim>\<open>SyntaxError\<close> on line 77.
\<close>

subsection \<open>Exceptions and objects\<close>

text \<open>A Python exception: the name of its class and its argument.\<close>

datatype exn = Exn (exn_class: string) (exn_arg: string)

definition NameError :: "string \<Rightarrow> exn" where
  "NameError name = Exn ''NameError'' name"

definition SyntaxError :: "string \<Rightarrow> exn" where
  "SyntaxError msg = Exn ''SyntaxError'' msg"

text \<open>An object a global name is bound to; only its identity matters here.\<close>

datatype pyobj = Obj string

subsection \<open>The collaborators\<close>

text \<open>
  \<^verbatim>\<open>problem\<close> and \<^verbatim>\<open>problem.manifold\<close>.  The callables may be stochastic and may
  raise, so each takes the number of calls made to it before and returns an error or
  a value: \<open>man_rand\<close> is \<^verbatim>\<open>man.rand\<close>, \<open>man_norm\<close> is \<^verbatim>\<open>man.norm\<close>, \<open>objective\<close> is
  \<^verbatim>\<open>problem.cost\<close>, \<open>gradient\<close> is \<^verbatim>\<open>problem.grad\<close> (the names the source gives
  them on lines 38 to 41).  Points \<open>'p\<close> and tangent vectors \<open>'v\<close> are opaque; floats
  are read as reals.
\<close>

record ('p, 'v) problem =
  man_rand :: "nat \<Rightarrow> exn + 'p"
  man_norm :: "nat \<Rightarrow> 'p \<Rightarrow> 'v \<Rightarrow> exn + real"
  objective :: "nat \<Rightarrow> 'p \<Rightarrow> exn + real"
  gradient :: "nat \<Rightarrow> 'p \<Rightarrow> exn + 'v"
  verbosity :: int

text \<open>
  Modelled from the spec: the attributes of the base class \<^verbatim>\<open>Solver\<close>
  (\<^verbatim>\<open>pymanopt/solvers/solver.py\<close>, not among the sources).  \<open>logverbosity\<close> is
  \<^verbatim>\<open>self._logverbosity\<close>; the four thresholds are those of the stopping policy, an
  unconfigured threshold being \<open>None\<close>.
\<close>

record solver =
  logverbosity :: int
  maxiter :: "int option"
  maxtime :: "real option"
  mingradnorm :: "real option"
  minstepsize :: "real option"

datatype stop_reason =
  MaxIterationsReached | MaxTimeExceeded | GradientNormBelowThreshold | StepSizeBelowThreshold

subsection \<open>What a call of solve can change\<close>

text \<open>Console output: a plain string, a \<^verbatim>\<open>%\<close>-formatted line kept as format and
  arguments (the rendering of floats is not modelled), or the text of a stop reason.\<close>

datatype fmt_arg = IntArg int | FloatArg real

datatype out_line = Text string | Formatted string "fmt_arg list" | ReasonText stop_reason

text \<open>Modelled from the spec: the optimisation log \<^verbatim>\<open>self._optlog\<close> of the base class,
  an append-only sequence of iteration records and a terminal record.\<close>

record 'p iteration_record =
  rec_iteration :: int
  rec_x :: 'p
  rec_cost :: real
  rec_gradnorm :: real

record 'p final_record =
  final_point :: 'p
  final_cost :: real
  reason :: "stop_reason option"
  elapsed_time :: real
  final_stepsize :: real
  final_gradnorm :: real
  final_iteration :: int

record 'p log_data =
  extraiterfields :: "string list"
  solverparams :: "(string \<times> pyobj) list"
  iterations :: "'p iteration_record list"
  final_values :: "'p final_record option"

record 'p world =
  console :: "out_line list"
  optlog :: "'p log_data"
  rand_calls :: nat
  norm_calls :: nat
  cost_calls :: nat
  grad_calls :: nat
  clock_reads :: nat

text \<open>A computation reads and changes the world and either raises or yields a value.\<close>

type_synonym ('a, 'p) run = "'p world \<Rightarrow> (exn + 'a) \<times> 'p world"

definition ret :: "'a \<Rightarrow> ('a, 'p) run" where
  "ret a w = (Inr a, w)"

definition raise :: "exn \<Rightarrow> ('a, 'p) run" where
  "raise e w = (Inl e, w)"

definition and_then :: "('a, 'p) run \<Rightarrow> ('a \<Rightarrow> ('b, 'p) run) \<Rightarrow> ('b, 'p) run" where
  "and_then m k w = (case m w of (Inl e, w') \<Rightarrow> (Inl e, w') | (Inr a, w') \<Rightarrow> k a w')"

definition when_do :: "bool \<Rightarrow> (unit, 'p) run \<Rightarrow> (unit, 'p) run" where
  "when_do b m = (if b then m else ret ())"

definition print :: "out_line \<Rightarrow> (unit, 'p) run" where
  "print l w = (Inr (), w\<lparr>console := console w @ [l]\<rparr>)"

definition time_time :: "(nat \<Rightarrow> real) \<Rightarrow> (real, 'p) run" where
  "time_time clk w = (Inr (clk (clock_reads w)), w\<lparr>clock_reads := Suc (clock_reads w)\<rparr>)"

definition call_rand :: "('p, 'v) problem \<Rightarrow> ('p, 'p) run" where
  "call_rand P w = (man_rand P (rand_calls w), w\<lparr>rand_calls := Suc (rand_calls w)\<rparr>)"

definition call_norm :: "('p, 'v) problem \<Rightarrow> 'p \<Rightarrow> 'v \<Rightarrow> (real, 'p) run" where
  "call_norm P p g w = (man_norm P (norm_calls w) p g, w\<lparr>norm_calls := Suc (norm_calls w)\<rparr>)"

definition call_objective :: "('p, 'v) problem \<Rightarrow> 'p \<Rightarrow> (real, 'p) run" where
  "call_objective P p w = (objective P (cost_calls w) p, w\<lparr>cost_calls := Suc (cost_calls w)\<rparr>)"

definition call_gradient :: "('p, 'v) problem \<Rightarrow> 'p \<Rightarrow> ('v, 'p) run" where
  "call_gradient P p w = (gradient P (grad_calls w) p, w\<lparr>grad_calls := Suc (grad_calls w)\<rparr>)"

subsection \<open>Names\<close>

text \<open>
  The names the module binds at its top level (lines 1 to 8), and the builtins it
  refers to; Python's other builtins are left out of the list.  Inside \<^verbatim>\<open>solve\<close> a
  name that is neither a parameter nor assigned in the body is looked up among these,
  and the lookup of a name that is not there raises \<^verbatim>\<open>NameError\<close>.
\<close>

definition module_globals :: "string list" where
  "module_globals = [''print_function'', ''division'', ''time'', ''Solver'', ''StochasticGradient'']"

definition builtins :: "string list" where
  "builtins = [''super'', ''print'', ''True'', ''None'']"

definition load_global :: "string \<Rightarrow> (pyobj, 'p) run" where
  "load_global name =
     (if name \<in> set module_globals \<or> name \<in> set builtins then ret (Obj name)
      else raise (NameError name))"

subsection \<open>The methods inherited from Solver\<close>

text \<open>Modelled from the spec: \<^verbatim>\<open>Solver._start_optlog\<close>, which opens a fresh log.\<close>

definition start_optlog :: "string list \<Rightarrow> (string \<times> pyobj) list \<Rightarrow> (unit, 'p) run" where
  "start_optlog names params w =
     (Inr (), w\<lparr>optlog := \<lparr>extraiterfields = names, solverparams = params,
                            iterations = [], final_values = None\<rparr>\<rparr>)"

text \<open>Modelled from the spec: \<^verbatim>\<open>Solver._append_optlog\<close>, the log's \<^verbatim>\<open>append(record)\<close>:
  the record made of the arguments of the call goes to the end and no earlier record
  is touched, so \<open>iterations\<close> is the sequence of the calls in their order.\<close>

definition append_optlog :: "int \<Rightarrow> 'p \<Rightarrow> real \<Rightarrow> real \<Rightarrow> (unit, 'p) run" where
  "append_optlog i p c gn w =
     (Inr (), w\<lparr>optlog := (optlog w)\<lparr>iterations := iterations (optlog w) @
        [\<lparr>rec_iteration = i, rec_x = p, rec_cost = c, rec_gradnorm = gn\<rparr>]\<rparr>\<rparr>)"

text \<open>Modelled from the spec: the stopping policy \<^verbatim>\<open>Solver._check_stopping_criterion\<close>,
  first match wins, an unconfigured threshold never triggers.\<close>

definition reached :: "'a::ord option \<Rightarrow> 'a \<Rightarrow> bool" where
  "reached limit v = (case limit of None \<Rightarrow> False | Some l \<Rightarrow> l \<le> v)"

definition below :: "'a::ord option \<Rightarrow> 'a \<Rightarrow> bool" where
  "below limit v = (case limit of None \<Rightarrow> False | Some l \<Rightarrow> v \<le> l)"

definition evaluate_policy :: "solver \<Rightarrow> real \<Rightarrow> real \<Rightarrow> real \<Rightarrow> int \<Rightarrow> stop_reason option" where
  "evaluate_policy S elapsed step gn i =
     (if reached (maxiter S) i then Some MaxIterationsReached
      else if reached (maxtime S) elapsed then Some MaxTimeExceeded
      else if below (mingradnorm S) gn then Some GradientNormBelowThreshold
      else if below (minstepsize S) step then Some StepSizeBelowThreshold
      else None)"

definition check_stopping_criterion ::
  "(nat \<Rightarrow> real) \<Rightarrow> solver \<Rightarrow> real \<Rightarrow> real \<Rightarrow> real \<Rightarrow> int \<Rightarrow> (stop_reason option, 'p) run" where
  "check_stopping_criterion clk S t0 step gn i =
     and_then (time_time clk) (\<lambda>now. ret (evaluate_policy S (now - t0) step gn i))"

text \<open>Modelled from the spec: \<^verbatim>\<open>Solver._stop_optlog\<close>, the log's \<^verbatim>\<open>finalize\<close>.\<close>

definition stop_optlog ::
  "(nat \<Rightarrow> real) \<Rightarrow> 'p \<Rightarrow> real \<Rightarrow> stop_reason option \<Rightarrow> real \<Rightarrow> real \<Rightarrow> real \<Rightarrow> int
     \<Rightarrow> (unit, 'p) run" where
  "stop_optlog clk p c r t0 step gn i =
     and_then (time_time clk) (\<lambda>now w.
       (Inr (), w\<lparr>optlog := (optlog w)\<lparr>final_values := Some
          \<lparr>final_point = p, final_cost = c, reason = r, elapsed_time = now - t0,
           final_stepsize = step, final_gradnorm = gn, final_iteration = i\<rparr>\<rparr>\<rparr>))"

subsection \<open>The body of solve\<close>

definition tab :: char where
  "tab = CHR 0x09"

text \<open>The string printed on line 52 and the format of line 68.\<close>

definition header :: string where
  "header = '' iter'' @ [tab, tab] @ ''   cost val'' @ [tab] @ ''    grad. norm''"

definition iter_format :: string where
  "iter_format = ''%5d'' @ [tab] @ ''%+.16e'' @ [tab] @ ''%.8e''"

text \<open>Lines 44 and 45: the starting point.\<close>

definition initial_point :: "('p, 'v) problem \<Rightarrow> 'p option \<Rightarrow> ('p, 'p) run" where
  "initial_point P x0 = (case x0 of None \<Rightarrow> call_rand P | Some p \<Rightarrow> ret p)"

text \<open>Lines 38 to 52: starting point, iteration counter, timer and header (lines 38
  to 41 only name the parts of \<^verbatim>\<open>problem\<close>).  The result is the triple of the locals
  \<^verbatim>\<open>x\<close>, \<^verbatim>\<open>iter\<close> and \<^verbatim>\<open>time0\<close>.\<close>

definition prepare ::
  "(nat \<Rightarrow> real) \<Rightarrow> ('p, 'v) problem \<Rightarrow> 'p option \<Rightarrow> ('p \<times> int \<times> real, 'p) run" where
  "prepare clk P x0 =
     and_then (initial_point P x0) (\<lambda>p.
     and_then (time_time clk) (\<lambda>t0.
     and_then (when_do (2 \<le> verbosity P) (print (Text header))) (\<lambda>_.
     ret (p, 0, t0))))"

text \<open>Lines 54 and 55: the arguments are evaluated before \<^verbatim>\<open>_start_optlog\<close> is
  entered; the second one reads the global name \<^verbatim>\<open>linesearch\<close>.\<close>

definition open_log :: "(unit, 'p) run" where
  "open_log =
     and_then (load_global ''linesearch'') (\<lambda>ls.
     start_optlog [''gradnorm''] [(''linesearcher'', ls)])"

text \<open>Lines 62 to 74: the locals an iteration has computed when it reaches the
  step-size statement.\<close>

record 'v evaluated =
  cost :: real
  grad :: 'v
  gradnorm :: real
  iter :: int
  desc_dir :: 'v

definition evaluate ::
  "solver \<Rightarrow> ('p, 'v::uminus) problem \<Rightarrow> 'p \<Rightarrow> int \<Rightarrow> ('v evaluated, 'p) run" where
  "evaluate S P p i =
     and_then (call_objective P p) (\<lambda>c.
     and_then (call_gradient P p) (\<lambda>g.
     and_then (call_norm P p g) (\<lambda>gn.
     and_then (when_do (2 \<le> verbosity P)
        (print (Formatted iter_format [IntArg (i + 1), FloatArg c, FloatArg gn]))) (\<lambda>_.
     and_then (when_do (2 \<le> logverbosity S) (append_optlog (i + 1) p c gn)) (\<lambda>_.
     ret \<lparr>cost = c, grad = g, gradnorm = gn, iter = i + 1, desc_dir = - g\<rparr>)))))"

text \<open>Line 77, \<^verbatim>\<open>stepsize, x = # TODO ...\<close>: the assignment has no right-hand side, so
  no step size and no new point are produced.\<close>

definition line_77 :: "(real \<times> 'p, 'p) run" where
  "line_77 = raise (SyntaxError ''invalid syntax'')"

text \<open>Lines 77 to 86: the locals at the end of an iteration.\<close>

record 'p stepped =
  point :: 'p
  stepsize :: real
  last_gradnorm :: real
  last_iter :: int
  stop_reason :: "stop_reason option"

definition announce :: "('p, 'v) problem \<Rightarrow> stop_reason option \<Rightarrow> (unit, 'p) run" where
  "announce P r =
     (case r of None \<Rightarrow> ret ()
      | Some sr \<Rightarrow> when_do (1 \<le> verbosity P)
          (and_then (print (ReasonText sr)) (\<lambda>_. print (Text []))))"

definition advance ::
  "(nat \<Rightarrow> real) \<Rightarrow> solver \<Rightarrow> ('p, 'v) problem \<Rightarrow> real \<Rightarrow> 'v evaluated \<Rightarrow> ('p stepped, 'p) run" where
  "advance clk S P t0 e =
     and_then line_77 (\<lambda>(step, p').
     and_then (check_stopping_criterion clk S t0 step (gradnorm e) (iter e)) (\<lambda>r.
     and_then (announce P r) (\<lambda>_.
     ret \<lparr>point = p', stepsize = step, last_gradnorm = gradnorm e, last_iter = iter e,
          stop_reason = r\<rparr>)))"

text \<open>Lines 62 to 86: one pass through the body of \<^verbatim>\<open>while True\<close>.\<close>

definition iteration ::
  "(nat \<Rightarrow> real) \<Rightarrow> solver \<Rightarrow> ('p, 'v::uminus) problem \<Rightarrow> real \<Rightarrow> 'p \<Rightarrow> int \<Rightarrow> ('p stepped, 'p) run" where
  "iteration clk S P t0 p i = and_then (evaluate S P p i) (advance clk S P t0)"

text \<open>Lines 57 to 86.  The loop has no bound of its own; a run that never leaves it
  has the value \<open>None\<close>.\<close>

partial_function (option) loop ::
  "(nat \<Rightarrow> real) \<Rightarrow> solver \<Rightarrow> ('p, 'v::uminus) problem \<Rightarrow> real \<Rightarrow> 'p \<Rightarrow> int \<Rightarrow> 'p world
     \<Rightarrow> ((exn + 'p stepped) \<times> 'p world) option" where
  "loop clk S P t0 p i w =
     (case iteration clk S P t0 p i w of
        (Inl e, w') \<Rightarrow> Some (Inl e, w')
      | (Inr l, w') \<Rightarrow>
          (if stop_reason l \<noteq> None then Some (Inr l, w')
           else loop clk S P t0 (point l) (last_iter l) w'))"

text \<open>Lines 88 to 94: what \<^verbatim>\<open>solve\<close> returns.\<close>

datatype 'p result = Point 'p | PointAndLog 'p "'p log_data"

definition finalize ::
  "(nat \<Rightarrow> real) \<Rightarrow> solver \<Rightarrow> ('p, 'v) problem \<Rightarrow> real \<Rightarrow> 'p stepped \<Rightarrow> ('p result, 'p) run" where
  "finalize clk S P t0 l =
     (if logverbosity S \<le> 0 then ret (Point (point l))
      else
        and_then (call_objective P (point l)) (\<lambda>c.
        and_then (stop_optlog clk (point l) c (stop_reason l) t0 (stepsize l)
                    (last_gradnorm l) (last_iter l)) (\<lambda>_ w.
        (Inr (PointAndLog (point l) (optlog w)), w))))"

text \<open>\<^verbatim>\<open>StochasticGradient.solve(self, problem, x=None)\<close>, lines 38 to 94.\<close>

definition solve ::
  "(nat \<Rightarrow> real) \<Rightarrow> solver \<Rightarrow> ('p, 'v::uminus) problem \<Rightarrow> 'p option \<Rightarrow> 'p world
     \<Rightarrow> ((exn + 'p result) \<times> 'p world) option" where
  "solve clk S P x0 w =
     (case and_then (prepare clk P x0) (\<lambda>start. and_then open_log (\<lambda>_. ret start)) w of
        (Inl e, w') \<Rightarrow> Some (Inl e, w')
      | (Inr (p, i, t0), w') \<Rightarrow>
          (case loop clk S P t0 p i w' of
             None \<Rightarrow> None
           | Some (Inl e, w'') \<Rightarrow> Some (Inl e, w'')
           | Some (Inr l, w'') \<Rightarrow> Some (finalize clk S P t0 l w'')))"

subsection \<open>Sample inputs\<close>

text \<open>A problem on the real line, \<open>f x = x\<^sup>2\<close>, with a given console verbosity; a solver
  with a given log verbosity and thresholds; a clock that advances by one second at
  each reading; and the state of the world before a first call.\<close>

definition sample_problem :: "int \<Rightarrow> (real, real) problem" where
  "sample_problem v =
     \<lparr>man_rand = (\<lambda>_. Inr 3), man_norm = (\<lambda>_ _ g. Inr \<bar>g\<bar>),
      objective = (\<lambda>_ p. Inr (p * p)), gradient = (\<lambda>_ p. Inr (2 * p)), verbosity = v\<rparr>"

definition sample_solver :: "int \<Rightarrow> int option \<Rightarrow> solver" where
  "sample_solver lv n =
     \<lparr>logverbosity = lv, maxiter = n, maxtime = None, mingradnorm = None, minstepsize = None\<rparr>"

definition sample_clock :: "nat \<Rightarrow> real" where
  "sample_clock n = real n"

definition fresh_world :: "real world" where
  "fresh_world =
     \<lparr>console = [],
      optlog = \<lparr>extraiterfields = [], solverparams = [], iterations = [], final_values = None\<rparr>,
      rand_calls = 0, norm_calls = 0, cost_calls = 0, grad_calls = 0, clock_reads = 0\<rparr>"

definition flaky_problem :: "(real, real) problem" where
  "flaky_problem =
     \<lparr>man_rand = (\<lambda>_. Inr 3), man_norm = (\<lambda>_ _ g. Inr \<bar>g\<bar>),
      objective = (\<lambda>_ p. Inr (p * p)),
      gradient = (\<lambda>n p. if n = 2 then Inl (Exn ''ValueError'' ''gradient'') else Inr (2 * p)),
      verbosity = 0\<rparr>"

text \<open>The class of the exception a run ended with, if it ended with one.\<close>

definition failure_class :: "((exn + 'a) \<times> 'w) option \<Rightarrow> string option" where
  "failure_class r = (case r of Some (Inl ex, _) \<Rightarrow> Some (exn_class ex) | _ \<Rightarrow> None)"

section \<open>Properties\<close>

subsection \<open>The statements before the loop\<close>

lemma open_log_raises: "open_log w = (Inl (NameError ''linesearch''), w)"
  by (simp add: open_log_def load_global_def module_globals_def builtins_def and_then_def
      raise_def)

lemma prepare_supplied:
  "prepare clk P (Some p) w =
     (Inr (p, 0, clk (clock_reads w)),
      (if 2 \<le> verbosity P
       then w\<lparr>clock_reads := Suc (clock_reads w), console := console w @ [Text header]\<rparr>
       else w\<lparr>clock_reads := Suc (clock_reads w)\<rparr>))"
  by (simp add: prepare_def initial_point_def and_then_def ret_def time_time_def when_do_def
      print_def)

lemma prepare_random:
  "man_rand P (rand_calls w) = Inr p \<Longrightarrow>
   prepare clk P None w =
     (Inr (p, 0, clk (clock_reads w)),
      (if 2 \<le> verbosity P
       then w\<lparr>rand_calls := Suc (rand_calls w), clock_reads := Suc (clock_reads w),
              console := console w @ [Text header]\<rparr>
       else w\<lparr>rand_calls := Suc (rand_calls w), clock_reads := Suc (clock_reads w)\<rparr>))"
  by (simp add: prepare_def initial_point_def and_then_def ret_def time_time_def when_do_def
      print_def call_rand_def)

lemma prepare_random_raises:
  "man_rand P (rand_calls w) = Inl e \<Longrightarrow>
   prepare clk P None w = (Inl e, w\<lparr>rand_calls := Suc (rand_calls w)\<rparr>)"
  by (simp add: prepare_def initial_point_def and_then_def call_rand_def)

lemma solve_supplied:
  "solve clk S P (Some p) w =
     Some (Inl (NameError ''linesearch''),
       (if 2 \<le> verbosity P
        then w\<lparr>clock_reads := Suc (clock_reads w), console := console w @ [Text header]\<rparr>
        else w\<lparr>clock_reads := Suc (clock_reads w)\<rparr>))"
  by (simp add: solve_def and_then_def prepare_supplied open_log_raises)

lemma solve_random:
  "man_rand P (rand_calls w) = Inr p \<Longrightarrow>
   solve clk S P None w =
     Some (Inl (NameError ''linesearch''),
       (if 2 \<le> verbosity P
        then w\<lparr>rand_calls := Suc (rand_calls w), clock_reads := Suc (clock_reads w),
               console := console w @ [Text header]\<rparr>
        else w\<lparr>rand_calls := Suc (rand_calls w), clock_reads := Suc (clock_reads w)\<rparr>))"
  by (simp add: solve_def and_then_def prepare_random open_log_raises)

lemma solve_random_raises:
  "man_rand P (rand_calls w) = Inl e \<Longrightarrow>
   solve clk S P None w = Some (Inl e, w\<lparr>rand_calls := Suc (rand_calls w)\<rparr>)"
  by (simp add: solve_def and_then_def prepare_random_raises)

subsection \<open>One pass through the loop body\<close>

lemma evaluate_returns:
  assumes "objective P (cost_calls w) p = Inr c"
    and "gradient P (grad_calls w) p = Inr g"
    and "man_norm P (norm_calls w) p g = Inr gn"
  shows "evaluate S P p i w =
     (Inr \<lparr>cost = c, grad = g, gradnorm = gn, iter = i + 1, desc_dir = - g\<rparr>,
      w\<lparr>cost_calls := Suc (cost_calls w), grad_calls := Suc (grad_calls w),
        norm_calls := Suc (norm_calls w),
        console := console w @
          (if 2 \<le> verbosity P
           then [Formatted iter_format [IntArg (i + 1), FloatArg c, FloatArg gn]] else []),
        optlog := (optlog w)\<lparr>iterations := iterations (optlog w) @
          (if 2 \<le> logverbosity S
           then [\<lparr>rec_iteration = i + 1, rec_x = p, rec_cost = c, rec_gradnorm = gn\<rparr>]
           else [])\<rparr>\<rparr>)"
  using assms
  by (simp add: evaluate_def and_then_def call_objective_def call_gradient_def call_norm_def
      when_do_def print_def append_optlog_def ret_def)

lemma evaluate_returned:
  assumes "evaluate S P p i w = (Inr e, w')"
  obtains c g gn where "objective P (cost_calls w) p = Inr c"
    and "gradient P (grad_calls w) p = Inr g"
    and "man_norm P (norm_calls w) p g = Inr gn"
    and "e = \<lparr>cost = c, grad = g, gradnorm = gn, iter = i + 1, desc_dir = - g\<rparr>"
proof (cases "objective P (cost_calls w) p")
  case (Inl ex)
  with assms show ?thesis
    by (simp add: evaluate_def and_then_def call_objective_def)
next
  case c: (Inr c)
  show ?thesis
  proof (cases "gradient P (grad_calls w) p")
    case (Inl ex)
    with assms c show ?thesis
      by (simp add: evaluate_def and_then_def call_objective_def call_gradient_def)
  next
    case g: (Inr g)
    show ?thesis
    proof (cases "man_norm P (norm_calls w) p g")
      case (Inl ex)
      with assms c g show ?thesis
        by (simp add: evaluate_def and_then_def call_objective_def call_gradient_def
            call_norm_def)
    next
      case (Inr gn)
      with assms c g evaluate_returns [OF c g Inr, of S i] that [OF c g Inr] show ?thesis
        by simp
    qed
  qed
qed

lemma evaluate_raised:
  assumes "evaluate S P p i w = (Inl ex, w')"
  shows "optlog w' = optlog w \<and> console w' = console w"
proof (cases "objective P (cost_calls w) p")
  case (Inl ex')
  with assms show ?thesis
    by (auto simp add: evaluate_def and_then_def call_objective_def)
next
  case c: (Inr c)
  show ?thesis
  proof (cases "gradient P (grad_calls w) p")
    case (Inl ex')
    with assms c show ?thesis
      by (auto simp add: evaluate_def and_then_def call_objective_def call_gradient_def)
  next
    case g: (Inr g)
    show ?thesis
    proof (cases "man_norm P (norm_calls w) p g")
      case (Inl ex')
      with assms c g show ?thesis
        by (auto simp add: evaluate_def and_then_def call_objective_def call_gradient_def
            call_norm_def)
    next
      case (Inr gn)
      with assms c g evaluate_returns [OF c g Inr, of S i] show ?thesis
        by auto
    qed
  qed
qed

lemma advance_raises: "advance clk S P t0 e w = (Inl (SyntaxError ''invalid syntax''), w)"
  by (simp add: advance_def line_77_def and_then_def raise_def)

lemma iteration_raises: "\<exists>ex w'. iteration clk S P t0 p i w = (Inl ex, w')"
proof (cases "evaluate S P p i w")
  case (Pair r w1)
  then show ?thesis
    by (cases r) (simp_all add: iteration_def and_then_def advance_raises)
qed

lemma loop_is_one_pass:
  "loop clk S P t0 p i w = Some (iteration clk S P t0 p i w)"
proof -
  obtain ex w' where "iteration clk S P t0 p i w = (Inl ex, w')"
    using iteration_raises [of clk S P t0 p i w] by auto
  then show ?thesis
    by (subst loop.simps) simp
qed


text \<open>No pass gets beyond line 77, so the loop never hands a point to the statements
  after it.\<close>

lemma loop_never_exits_normally: "loop clk S P t0 p i w \<noteq> Some (Inr l, w')"
  using iteration_raises [of clk S P t0 p i w] by (auto simp add: loop_is_one_pass)

text \<open>A log opened by \<^verbatim>\<open>_start_optlog\<close> holds no iteration record.\<close>

lemma start_optlog_opens_empty:
  "start_optlog names params w = (r, w') \<Longrightarrow> iterations (optlog w') = []"
  by (auto simp add: start_optlog_def)

text \<open>A pass that cannot evaluate cost, gradient or norm ends with the exception it
  got, before the print of line 68 and the append of line 71.\<close>

lemma evaluate_cost_raises:
  "objective P (cost_calls w) p = Inl ex \<Longrightarrow>
   evaluate S P p i w = (Inl ex, w\<lparr>cost_calls := Suc (cost_calls w)\<rparr>)"
  by (simp add: evaluate_def and_then_def call_objective_def)

lemma evaluate_gradient_raises:
  "objective P (cost_calls w) p = Inr c \<Longrightarrow> gradient P (grad_calls w) p = Inl ex \<Longrightarrow>
   evaluate S P p i w =
     (Inl ex, w\<lparr>cost_calls := Suc (cost_calls w), grad_calls := Suc (grad_calls w)\<rparr>)"
  by (simp add: evaluate_def and_then_def call_objective_def call_gradient_def)

lemma evaluate_norm_raises:
  "objective P (cost_calls w) p = Inr c \<Longrightarrow> gradient P (grad_calls w) p = Inr g \<Longrightarrow>
   man_norm P (norm_calls w) p g = Inl ex \<Longrightarrow>
   evaluate S P p i w =
     (Inl ex, w\<lparr>cost_calls := Suc (cost_calls w), grad_calls := Suc (grad_calls w),
        norm_calls := Suc (norm_calls w)\<rparr>)"
  by (simp add: evaluate_def and_then_def call_objective_def call_gradient_def call_norm_def)

text \<open>Every pass evaluates the cost exactly once, on line 62.\<close>

lemma iteration_evaluates_cost_once:
  "cost_calls (snd (iteration clk S P t0 p i w)) = Suc (cost_calls w)"
proof (cases "objective P (cost_calls w) p")
  case (Inl ex)
  then show ?thesis
    by (simp add: iteration_def and_then_def evaluate_cost_raises)
next
  case c: (Inr c)
  show ?thesis
  proof (cases "gradient P (grad_calls w) p")
    case (Inl ex)
    with c show ?thesis
      by (simp add: iteration_def and_then_def evaluate_gradient_raises)
  next
    case g: (Inr g)
    show ?thesis
    proof (cases "man_norm P (norm_calls w) p g")
      case (Inl ex)
      with c g show ?thesis
        by (simp add: iteration_def and_then_def evaluate_norm_raises)
    next
      case (Inr gn)
      with c g show ?thesis
        by (simp add: iteration_def and_then_def evaluate_returns advance_raises)
    qed
  qed
qed

subsection \<open>The statements after the loop\<close>

text \<open>Lines 88 to 94 taken by themselves, from the locals a finished loop would leave:
  the bare point when the log verbosity is at most 0; otherwise one more evaluation
  of the cost at that point, the terminal record, and the pair of point and log.  No
  run of \<open>solve\<close> gets there, as shown below.\<close>

lemma finalize_bare_point:
  "logverbosity S \<le> 0 \<Longrightarrow> finalize clk S P t0 l w = (Inr (Point (point l)), w)"
  by (simp add: finalize_def ret_def)

lemma finalize_with_log:
  assumes "0 < logverbosity S" and "objective P (cost_calls w) (point l) = Inr c"
  shows "finalize clk S P t0 l w =
     (Inr (PointAndLog (point l)
        ((optlog w)\<lparr>final_values := Some
           \<lparr>final_point = point l, final_cost = c, reason = stop_reason l,
            elapsed_time = clk (clock_reads w) - t0, final_stepsize = stepsize l,
            final_gradnorm = last_gradnorm l, final_iteration = last_iter l\<rparr>\<rparr>)),
      w\<lparr>cost_calls := Suc (cost_calls w), clock_reads := Suc (clock_reads w),
        optlog := (optlog w)\<lparr>final_values := Some
           \<lparr>final_point = point l, final_cost = c, reason = stop_reason l,
            elapsed_time = clk (clock_reads w) - t0, final_stepsize = stepsize l,
            final_gradnorm = last_gradnorm l, final_iteration = last_iter l\<rparr>\<rparr>\<rparr>)"
  using assms
  by (simp add: finalize_def and_then_def call_objective_def stop_optlog_def time_time_def)

lemma finalize_cost_raises:
  assumes "0 < logverbosity S" and "objective P (cost_calls w) (point l) = Inl ex"
  shows "finalize clk S P t0 l w = (Inl ex, w\<lparr>cost_calls := Suc (cost_calls w)\<rparr>)"
  using assms
  by (simp add: finalize_def and_then_def call_objective_def)

subsection \<open>The records a pass appends\<close>






section \<open>The claims\<close>

text \<open>
  C9.  Every call of \<open>solve\<close>, for any solver, problem, initial point and state, ends
  with an exception before the first pass through the loop: the exception is the
  \<^verbatim>\<open>NameError\<close> for \<^verbatim>\<open>linesearch\<close> raised on line 55, or, when no initial point is
  given, the one \<^verbatim>\<open>man.rand()\<close> raised on line 45.  The log is left as it was (no
  iteration record is appended), cost, gradient and norm are never evaluated, and no
  point is returned.
\<close>

theorem solve_fails_before_first_iteration:
  "\<exists>ex w'. solve clk S P x0 w = Some (Inl ex, w') \<and>
      ex = (case initial_point P x0 w of (Inl ex', _) \<Rightarrow> ex'
            | (Inr _, _) \<Rightarrow> NameError ''linesearch'') \<and>
      optlog w' = optlog w \<and> cost_calls w' = cost_calls w \<and>
      grad_calls w' = grad_calls w \<and> norm_calls w' = norm_calls w"
proof (cases x0)
  case (Some p)
  then show ?thesis
    by (simp add: solve_supplied initial_point_def ret_def)
next
  case None
  show ?thesis
  proof (cases "man_rand P (rand_calls w)")
    case (Inl ex)
    with None show ?thesis
      by (simp add: solve_random_raises initial_point_def call_rand_def)
  next
    case (Inr p)
    with None show ?thesis
      by (simp add: solve_random initial_point_def call_rand_def)
  qed
qed

text \<open>
  C8.  Without an initial point, the statements before the loop call \<^verbatim>\<open>man.rand()\<close>
  exactly once and its result is the first iterate (with the counter at 0), and the
  whole call of \<open>solve\<close> makes that one call only; with an initial point \<open>p\<close>, no random
  point is requested, neither before the loop nor in the whole call, and \<open>p\<close> is the
  first iterate.
\<close>

theorem starting_point_drawn_once_or_supplied:
  "rand_calls (snd (prepare clk P None w)) = Suc (rand_calls w) \<and>
   fst (prepare clk P None w) =
     (case man_rand P (rand_calls w) of Inl ex \<Rightarrow> Inl ex
      | Inr q \<Rightarrow> Inr (q, 0, clk (clock_reads w))) \<and>
   (\<exists>r w'. solve clk S P None w = Some (r, w') \<and> rand_calls w' = Suc (rand_calls w)) \<and>
   rand_calls (snd (prepare clk P (Some p) w)) = rand_calls w \<and>
   fst (prepare clk P (Some p) w) = Inr (p, 0, clk (clock_reads w)) \<and>
   (\<exists>r w'. solve clk S P (Some p) w = Some (r, w') \<and> rand_calls w' = rand_calls w)"
proof (cases "man_rand P (rand_calls w)")
  case (Inl ex)
  then show ?thesis
    by (simp add: prepare_random_raises solve_random_raises prepare_supplied solve_supplied)
next
  case (Inr q)
  then show ?thesis
    by (simp add: prepare_random solve_random prepare_supplied solve_supplied)
qed



text \<open>
  C5.  Whenever lines 62 to 74 complete, the descent direction they leave in
  \<^verbatim>\<open>desc_dir\<close> is the negation of the gradient estimate that the gradient call of this
  pass returned for the current point.  Nothing else enters: two passes, at whatever
  counters, points, solvers, problems and states of the world, that got the same
  gradient estimate compute the same direction.
\<close>

theorem descent_direction_is_negated_gradient:
  assumes "evaluate S P p i w = (Inr e, w')"
    and "evaluate S' P' p' i' v = (Inr e', v')"
  shows "gradient P (grad_calls w) p = Inr (grad e) \<and> desc_dir e = - grad e \<and>
         (grad e' = grad e \<longrightarrow> desc_dir e' = desc_dir e)"
proof -
  from assms(1) obtain c g gn where "gradient P (grad_calls w) p = Inr g"
    and e: "e = \<lparr>cost = c, grad = g, gradnorm = gn, iter = i + 1, desc_dir = - g\<rparr>"
    by (rule evaluate_returned)
  moreover from assms(2) obtain c' g' gn' where
    "e' = \<lparr>cost = c', grad = g', gradnorm = gn', iter = i' + 1, desc_dir = - g'\<rparr>"
    by (rule evaluate_returned)
  ultimately show ?thesis
    by simp
qed

theorem descent_direction_is_negated_gradient_witness:
  "evaluate (sample_solver 0 None) (sample_problem 0) 3 0 fresh_world =
     (Inr \<lparr>cost = 9, grad = 6, gradnorm = 6, iter = 1, desc_dir = - 6\<rparr>,
      fresh_world\<lparr>cost_calls := 1, grad_calls := 1, norm_calls := 1\<rparr>) \<and>
   evaluate (sample_solver 2 None) (sample_problem 2) 3 7 fresh_world =
     (Inr \<lparr>cost = 9, grad = 6, gradnorm = 6, iter = 8, desc_dir = - 6\<rparr>,
      fresh_world\<lparr>cost_calls := 1, grad_calls := 1, norm_calls := 1,
        console := [Formatted iter_format [IntArg 8, FloatArg 9, FloatArg 6]],
        optlog := (optlog fresh_world)\<lparr>iterations :=
          [\<lparr>rec_iteration = 8, rec_x = 3, rec_cost = 9, rec_gradnorm = 6\<rparr>]\<rparr>\<rparr>) \<and>
   gradient (sample_problem 0) (grad_calls fresh_world) 3 = Inr (6::real) \<and>
   desc_dir \<lparr>cost = 9, grad = 6, gradnorm = 6, iter = 1, desc_dir = - 6\<rparr> = - (6::real)"
proof -
  have h1: "evaluate (sample_solver 0 None) (sample_problem 0) 3 0 fresh_world =
     (Inr \<lparr>cost = 9, grad = 6, gradnorm = 6, iter = 1, desc_dir = - 6\<rparr>,
      fresh_world\<lparr>cost_calls := 1, grad_calls := 1, norm_calls := 1\<rparr>)"
    by (simp add: evaluate_returns [of _ _ _ 9 6 6] sample_problem_def sample_solver_def
        fresh_world_def)
  have h2: "evaluate (sample_solver 2 None) (sample_problem 2) 3 7 fresh_world =
     (Inr \<lparr>cost = 9, grad = 6, gradnorm = 6, iter = 8, desc_dir = - 6\<rparr>,
      fresh_world\<lparr>cost_calls := 1, grad_calls := 1, norm_calls := 1,
        console := [Formatted iter_format [IntArg 8, FloatArg 9, FloatArg 6]],
        optlog := (optlog fresh_world)\<lparr>iterations :=
          [\<lparr>rec_iteration = 8, rec_x = 3, rec_cost = 9, rec_gradnorm = 6\<rparr>]\<rparr>\<rparr>)"
    by (simp add: evaluate_returns [of _ _ _ 9 6 6] sample_problem_def sample_solver_def
        fresh_world_def)
  show ?thesis
    using descent_direction_is_negated_gradient [OF h1 h2] h1 h2
    by simp
qed

text \<open>
  C7, as stated, fails: the header printed on line 52 has two tab characters after
  \<^verbatim>\<open>" iter"\<close>, not one.  With console verbosity 2 and the initial point 3, the console
  holds that header when \<open>solve\<close> ends, and it differs from the text of the claim.
\<close>

theorem header_has_two_tabs_counterexample:
  "map_option (console \<circ> snd)
     (solve sample_clock (sample_solver 0 None) (sample_problem 2) (Some 3) fresh_world) =
     Some [Text ('' iter'' @ [CHR 0x09, CHR 0x09] @ ''   cost val'' @ [CHR 0x09] @
                 ''    grad. norm'')] \<and>
   map_option (console \<circ> snd)
     (solve sample_clock (sample_solver 0 None) (sample_problem 2) (Some 3) fresh_world) \<noteq>
     Some [Text ('' iter'' @ [CHR 0x09] @ ''   cost val'' @ [CHR 0x09] @ ''    grad. norm'')]"
  by (simp add: solve_supplied sample_problem_def fresh_world_def header_def tab_def)

text \<open>
  C7, amended.  With console verbosity at least 2, once the starting point is there
  (supplied, or returned by \<^verbatim>\<open>man.rand()\<close>), the statements before the loop print the
  header \<^verbatim>\<open>" iter"\<close>, two tabs, \<^verbatim>\<open>"   cost val"\<close>, one tab, \<^verbatim>\<open>"    grad. norm"\<close>, and it
  is what the call of \<open>solve\<close> has added to the console when it ends.  Each pass through
  lines 62 to 74 that has evaluated cost, gradient and norm prints one line, made with
  the format \<^verbatim>\<open>%5d\<close>, tab, \<^verbatim>\<open>%+.16e\<close>, tab, \<^verbatim>\<open>%.8e\<close> from the new iteration number, the
  cost and the gradient norm; a pass that fails before prints nothing.
\<close>

theorem console_header_and_progress_line:
  assumes "2 \<le> verbosity P"
  shows "header = '' iter'' @ [CHR 0x09, CHR 0x09] @ ''   cost val'' @ [CHR 0x09] @
                  ''    grad. norm'' \<and>
         iter_format = ''%5d'' @ [CHR 0x09] @ ''%+.16e'' @ [CHR 0x09] @ ''%.8e'' \<and>
         console (snd (prepare clk P (Some p) w)) = console w @ [Text header] \<and>
         (\<exists>r w'. solve clk S P (Some p) w = Some (r, w') \<and>
            console w' = console w @ [Text header]) \<and>
         console (snd (prepare clk P None w)) = console w @
           (case man_rand P (rand_calls w) of Inl ex \<Rightarrow> [] | Inr q \<Rightarrow> [Text header]) \<and>
         (\<exists>r w'. solve clk S P None w = Some (r, w') \<and>
            console w' = console w @
              (case man_rand P (rand_calls w) of Inl ex \<Rightarrow> [] | Inr q \<Rightarrow> [Text header])) \<and>
         (case evaluate S P p i w of
            (Inr e, w1) \<Rightarrow>
              iter e = i + 1 \<and>
              console w1 = console w @
                [Formatted iter_format [IntArg (i + 1), FloatArg (cost e), FloatArg (gradnorm e)]]
          | (Inl ex, w1) \<Rightarrow> console w1 = console w)"
proof -
  have strings: "header = '' iter'' @ [CHR 0x09, CHR 0x09] @ ''   cost val'' @ [CHR 0x09] @
        ''    grad. norm'' \<and>
      iter_format = ''%5d'' @ [CHR 0x09] @ ''%+.16e'' @ [CHR 0x09] @ ''%.8e''"
    by (simp add: header_def iter_format_def tab_def)
  have supplied: "console (snd (prepare clk P (Some p) w)) = console w @ [Text header] \<and>
      (\<exists>r w'. solve clk S P (Some p) w = Some (r, w') \<and> console w' = console w @ [Text header])"
    using assms by (simp add: prepare_supplied solve_supplied)
  have random: "console (snd (prepare clk P None w)) = console w @
        (case man_rand P (rand_calls w) of Inl ex \<Rightarrow> [] | Inr q \<Rightarrow> [Text header]) \<and>
      (\<exists>r w'. solve clk S P None w = Some (r, w') \<and>
         console w' = console w @
           (case man_rand P (rand_calls w) of Inl ex \<Rightarrow> [] | Inr q \<Rightarrow> [Text header]))"
  proof (cases "man_rand P (rand_calls w)")
    case (Inl ex)
    then show ?thesis
      by (simp add: prepare_random_raises solve_random_raises)
  next
    case (Inr q)
    then show ?thesis
      using assms by (simp add: prepare_random solve_random)
  qed
  have pass: "(case evaluate S P p i w of
        (Inr e, w1) \<Rightarrow>
          iter e = i + 1 \<and>
          console w1 = console w @
            [Formatted iter_format [IntArg (i + 1), FloatArg (cost e), FloatArg (gradnorm e)]]
      | (Inl ex, w1) \<Rightarrow> console w1 = console w)"
  proof -
    obtain r w1 where ev: "evaluate S P p i w = (r, w1)"
      by (cases "evaluate S P p i w")
    show ?thesis
    proof (cases r)
      case (Inl ex)
      with ev show ?thesis
        using evaluate_raised [of S P p i w ex w1] by simp
    next
      case (Inr e)
      with ev have ev': "evaluate S P p i w = (Inr e, w1)"
        by simp
      then obtain c g gn where c: "objective P (cost_calls w) p = Inr c"
        and g: "gradient P (grad_calls w) p = Inr g"
        and gn: "man_norm P (norm_calls w) p g = Inr gn"
        and e_def: "e = \<lparr>cost = c, grad = g, gradnorm = gn, iter = i + 1, desc_dir = - g\<rparr>"
        by (rule evaluate_returned)
      show ?thesis
        using ev' assms by (auto simp add: evaluate_returns [OF c g gn] e_def)
    qed
  qed
  from strings supplied random pass show ?thesis
    by (intro conjI) simp_all
qed

theorem console_header_and_progress_line_witness:
  "2 \<le> verbosity (sample_problem 2) \<and>
   (\<exists>r w'. solve sample_clock (sample_solver 0 None) (sample_problem 2) (Some 3) fresh_world
        = Some (r, w') \<and>
      console w' = console fresh_world @ [Text header]) \<and>
   console (snd (evaluate (sample_solver 0 None) (sample_problem 2) 3 0 fresh_world)) =
     [Formatted iter_format [IntArg 1, FloatArg 9, FloatArg 6]]"
proof -
  have h: "2 \<le> verbosity (sample_problem 2)"
    by (simp add: sample_problem_def)
  have ev: "evaluate (sample_solver 0 None) (sample_problem 2) 3 0 fresh_world =
      (Inr \<lparr>cost = 9, grad = 6, gradnorm = 6, iter = 1, desc_dir = - 6\<rparr>,
       fresh_world\<lparr>cost_calls := 1, grad_calls := 1, norm_calls := 1,
         console := [Formatted iter_format [IntArg 1, FloatArg 9, FloatArg 6]]\<rparr>)"
    by (simp add: evaluate_returns [of _ _ _ 9 6 6] sample_problem_def sample_solver_def
        fresh_world_def)
  have empty: "console fresh_world = []"
    by (simp add: fresh_world_def)
  show ?thesis
    using console_header_and_progress_line [OF h, where clk = sample_clock
        and S = "sample_solver 0 None" and p = 3 and w = fresh_world and i = 0] h
    by (simp add: ev empty)
qed




text \<open>
  C1 on the code.  A pass through the loop body entered at the point 3 evaluates cost,
  gradient and norm and then stops at line 77 with no step size and no new point: the
  statement has no right-hand side and calls no step-size rule.  The call of \<open>solve\<close>
  itself ends before, on line 55.
\<close>

theorem step_size_statement_yields_nothing:
  "iteration sample_clock (sample_solver 0 (Some 3)) (sample_problem 0) 0 3 0 fresh_world =
     (Inl (Exn ''SyntaxError'' ''invalid syntax''),
      fresh_world\<lparr>cost_calls := 1, grad_calls := 1, norm_calls := 1\<rparr>) \<and>
   loop sample_clock (sample_solver 0 (Some 3)) (sample_problem 0) 0 3 0 fresh_world =
     Some (Inl (Exn ''SyntaxError'' ''invalid syntax''),
      fresh_world\<lparr>cost_calls := 1, grad_calls := 1, norm_calls := 1\<rparr>) \<and>
   solve sample_clock (sample_solver 0 (Some 3)) (sample_problem 0) (Some 3) fresh_world =
     Some (Inl (Exn ''NameError'' ''linesearch''), fresh_world\<lparr>clock_reads := 1\<rparr>)"
proof -
  have ev: "evaluate (sample_solver 0 (Some 3)) (sample_problem 0) 3 0 fresh_world =
      (Inr \<lparr>cost = 9, grad = 6, gradnorm = 6, iter = 1, desc_dir = - 6\<rparr>,
       fresh_world\<lparr>cost_calls := 1, grad_calls := 1, norm_calls := 1\<rparr>)"
    by (simp add: evaluate_returns [of _ _ _ 9 6 6] sample_problem_def sample_solver_def
        fresh_world_def)
  have it: "iteration sample_clock (sample_solver 0 (Some 3)) (sample_problem 0) 0 3 0
      fresh_world =
     (Inl (Exn ''SyntaxError'' ''invalid syntax''),
      fresh_world\<lparr>cost_calls := 1, grad_calls := 1, norm_calls := 1\<rparr>)"
    by (simp add: iteration_def and_then_def ev advance_raises SyntaxError_def)
  have "solve sample_clock (sample_solver 0 (Some 3)) (sample_problem 0) (Some 3) fresh_world =
     Some (Inl (Exn ''NameError'' ''linesearch''), fresh_world\<lparr>clock_reads := 1\<rparr>)"
    by (simp add: solve_supplied NameError_def sample_problem_def fresh_world_def)
  with it show ?thesis
    by (simp add: loop_is_one_pass)
qed

text \<open>
  C3 on the code.  With log verbosity 0, and with log verbosity 2, the call with the
  initial point 3 ends with the \<^verbatim>\<open>NameError\<close> of line 55: it returns neither a point
  nor a pair of a point and a log, and the log has no terminal record.
\<close>

theorem no_result_is_returned:
  "solve sample_clock (sample_solver 0 (Some 1)) (sample_problem 0) (Some 3) fresh_world =
     Some (Inl (Exn ''NameError'' ''linesearch''), fresh_world\<lparr>clock_reads := 1\<rparr>) \<and>
   solve sample_clock (sample_solver 2 (Some 1)) (sample_problem 0) (Some 3) fresh_world =
     Some (Inl (Exn ''NameError'' ''linesearch''), fresh_world\<lparr>clock_reads := 1\<rparr>) \<and>
   final_values (optlog (fresh_world\<lparr>clock_reads := 1\<rparr>)) = None"
  by (simp add: solve_supplied NameError_def sample_problem_def fresh_world_def)

text \<open>
  C6 on the code.  The gradient of \<open>flaky_problem\<close> raises a \<^verbatim>\<open>ValueError\<close> when it is
  called for the third time.  The call of \<open>solve\<close> with up to five iterations allowed
  never calls it: it ends with the \<^verbatim>\<open>NameError\<close> of line 55, which is not the
  gradient's failure.
\<close>

theorem gradient_failure_is_never_reached:
  "gradient flaky_problem 2 3 = Inl (Exn ''ValueError'' ''gradient'') \<and>
   solve sample_clock (sample_solver 2 (Some 5)) flaky_problem (Some 3) fresh_world =
     Some (Inl (Exn ''NameError'' ''linesearch''), fresh_world\<lparr>clock_reads := 1\<rparr>) \<and>
   grad_calls (fresh_world\<lparr>clock_reads := 1\<rparr>) = 0"
  by (simp add: solve_supplied NameError_def flaky_problem_def fresh_world_def)

text \<open>
  C10 on the code.  With log verbosity 1 the call with the initial point 3 ends with
  the \<^verbatim>\<open>NameError\<close> of line 55 without a single evaluation of the cost and without a
  terminal record in the log.
\<close>

theorem cost_is_never_evaluated:
  "failure_class
     (solve sample_clock (sample_solver 1 (Some 1)) (sample_problem 0) (Some 3) fresh_world) =
     Some ''NameError'' \<and>
   map_option (cost_calls \<circ> snd)
     (solve sample_clock (sample_solver 1 (Some 1)) (sample_problem 0) (Some 3) fresh_world) =
     Some 0 \<and>
   map_option (final_values \<circ> optlog \<circ> snd)
     (solve sample_clock (sample_solver 1 (Some 1)) (sample_problem 0) (Some 3) fresh_world) =
     Some None"
  by (simp add: solve_supplied NameError_def failure_class_def sample_problem_def
      fresh_world_def)

end
